theory Spec2Isabelle
  imports Main
begin

section \<open>Values of the host language\<close>

text \<open>
  Everything that can be thrown. \<open>TaskRunnerException msg prev\<close> is the dispatcher's own
  exception with its message and the optional wrapped error; \<open>TaskException\<close> is the one
  of the Task class; \<open>ReferenceError\<close> and \<open>TypeError\<close> are raised by the runtime;
  \<open>Thrown\<close> stands for any error thrown by user code (constructors, run methods).
\<close>

datatype fault =
    TaskRunnerException string "fault option"
  | TaskException string
  | ReferenceError string
  | TypeError string
  | Thrown string

text \<open>
  The values a task description is built from. \<open>JObj\<close> is a plain object with its own
  enumerable properties in insertion order, \<open>JInst\<close> an object that is not plain (an instance
  of a class), \<open>JResolved\<close> and \<open>JRejected\<close> a promise together with the way it settles.
  Numbers are restricted to integers. Function values occur only as constructors and
  callbacks and have types of their own below.
\<close>

datatype jsval =
    JUndefined
  | JNull
  | JBool bool
  | JNum int
  | JStr string
  | JArr "jsval list"
  | JObj "(string \<times> jsval) list"
  | JInst "(string \<times> jsval) list"
  | JResolved jsval
  | JRejected fault

type_synonym props = "(string \<times> jsval) list"

text \<open>Truthiness, as tested by \<open>if ( v )\<close>, \<open>!v\<close> and \<open>v ? a : b\<close>.\<close>

fun truthy :: "jsval \<Rightarrow> bool" where
  "truthy JUndefined = False"
| "truthy JNull = False"
| "truthy (JBool b) = b"
| "truthy (JNum n) = (n \<noteq> 0)"
| "truthy (JStr s) = (s \<noteq> [])"
| "truthy (JArr xs) = True"
| "truthy (JObj ps) = True"
| "truthy (JInst ps) = True"
| "truthy (JResolved v) = True"
| "truthy (JRejected e) = True"

fun typeof :: "jsval \<Rightarrow> string" where
  "typeof JUndefined = ''undefined''"
| "typeof JNull = ''object''"
| "typeof (JBool b) = ''boolean''"
| "typeof (JNum n) = ''number''"
| "typeof (JStr s) = ''string''"
| "typeof (JArr xs) = ''object''"
| "typeof (JObj ps) = ''object''"
| "typeof (JInst ps) = ''object''"
| "typeof (JResolved v) = ''object''"
| "typeof (JRejected e) = ''object''"

text \<open>\<open>v instanceof Array\<close>\<close>

fun is_array :: "jsval \<Rightarrow> bool" where
  "is_array (JArr xs) = True"
| "is_array v = False"

fun elems :: "jsval \<Rightarrow> jsval list" where
  "elems (JArr xs) = xs"
| "elems v = []"

text \<open>
  Modelled from the spec: \<open>isPojo\<close> of the package node-objection is not part of the
  sources. The spec describes it as the predicate answering whether a value is a plain keyed
  mapping (not an array, not a class instance with custom behaviour).
\<close>

fun isPojo :: "jsval \<Rightarrow> bool" where
  "isPojo (JObj ps) = True"
| "isPojo v = False"

text \<open>\<open>Object.entries\<close> of a plain object; own properties of an object in general.\<close>

fun entries :: "jsval \<Rightarrow> props" where
  "entries (JObj ps) = ps"
| "entries (JInst ps) = ps"
| "entries v = []"

text \<open>
  Reading a property: the first entry with that name, \<open>undefined\<close> when there is none.
  The names the sources read (\<open>type\<close>, \<open>options\<close>, \<open>id\<close>, \<open>args\<close>) are no properties of
  primitive values, arrays or promises; reading from \<open>null\<close> or \<open>undefined\<close> throws and is
  written out where the sources can reach it.
\<close>

fun lookup :: "props \<Rightarrow> string \<Rightarrow> jsval" where
  "lookup [] k = JUndefined"
| "lookup ((k', v) # ps) k = (if k' = k then v else lookup ps k)"

definition get_prop :: "jsval \<Rightarrow> string \<Rightarrow> jsval" where
  "get_prop v k = lookup (entries v) k"

text \<open>
  Writing a property \<open>o[k] = v\<close>: an existing entry is overwritten where it stands, a new
  one is added at the end.
\<close>

fun assign :: "props \<Rightarrow> string \<Rightarrow> jsval \<Rightarrow> props" where
  "assign [] k v = [(k, v)]"
| "assign ((k', v') # ps) k v = (if k' = k then (k, v) # ps else (k', v') # assign ps k v)"

fun set_prop :: "jsval \<Rightarrow> string \<Rightarrow> jsval \<Rightarrow> jsval" where
  "set_prop (JObj ps) k v = JObj (assign ps k v)"
| "set_prop (JInst ps) k v = JInst (assign ps k v)"
| "set_prop w k v = w"

text \<open>Conversion to a string, as done by \<open>'text' + v\<close>.\<close>

fun string_of_nat :: "nat \<Rightarrow> string" where
  "string_of_nat n =
     (if n < 10 then [char_of (48 + n)]
      else string_of_nat (n div 10) @ [char_of (48 + n mod 10)])"

fun to_str :: "jsval \<Rightarrow> string"
  and join_str :: "jsval list \<Rightarrow> string"
where
  "to_str JUndefined = ''undefined''"
| "to_str JNull = ''null''"
| "to_str (JBool b) = (if b then ''true'' else ''false'')"
| "to_str (JNum n) = (if n < 0 then ''-'' @ string_of_nat (nat (- n)) else string_of_nat (nat n))"
| "to_str (JStr s) = s"
| "to_str (JArr xs) = join_str xs"
| "to_str (JObj ps) = ''[object Object]''"
| "to_str (JInst ps) = ''[object Object]''"
| "to_str (JResolved v) = ''[object Promise]''"
| "to_str (JRejected e) = ''[object Promise]''"
| "join_str [] = []"
| "join_str (x # xs) =
     (if x = JUndefined \<or> x = JNull then [] else to_str x)
     @ (if xs = [] then [] else '','' @ join_str xs)"

section \<open>The dispatcher: state, fault sink and registry\<close>

text \<open>
  A task instance is known to the dispatcher by its \<open>run\<close> method only, a constructor by
  what \<open>new TaskConstructor( this, options )\<close> does with the options: throw, or yield an
  instance. Constructors and run methods are taken to depend on their arguments only.
  \<open>Dispatcher\<close> is the one instance that is no task: the dispatcher itself, which
  \<open>new Object( this, options )\<close> returns; its \<open>run\<close> method is the router.
\<close>

datatype task_instance =
    TaskInstance (run_method: "jsval list \<Rightarrow> fault + jsval")
  | Dispatcher

datatype task_ctor = TaskCtor (construct: "jsval \<Rightarrow> fault + task_instance")

text \<open>The second argument of \<open>register\<close>: \<open>typeof\<close> tells a function from any other value.\<close>

datatype ctor_arg = NotCallable jsval | Callable task_ctor

text \<open>
  The fields \<open>_strict\<close>, \<open>_notify\<close>, \<open>_parser\<close> and \<open>_types\<close> of a TaskRunner. The notify
  callback is represented by whether one is configured and by \<open>notified\<close>, the faults it has
  been called with, oldest first; the parser by what it does to the properties of the task
  data object it is handed. Both callbacks are documented as returning nothing. \<open>types\<close>
  holds the own entries of the object \<open>_types\<close>, the constructors that \<open>register\<close> has
  stored.
\<close>

record runner =
  strict :: bool
  notify :: bool
  parser :: "(props \<Rightarrow> props) option"
  types :: "string \<rightharpoonup> task_ctor"
  notified :: "fault list"

definition TaskRunner :: "bool \<Rightarrow> bool \<Rightarrow> (props \<Rightarrow> props) option \<Rightarrow> runner" where
  "TaskRunner strict' notify' taskParser =
     \<lparr> strict = strict', notify = notify', parser = taskParser,
       types = Map.empty, notified = [] \<rparr>"

text \<open>\<open>error( err )\<close>: throw in strict mode, else tell the notify callback if there is one.\<close>

definition error :: "runner \<Rightarrow> fault \<Rightarrow> (fault + unit) \<times> runner" where
  "error rn err =
     (if strict rn then (Inl err, rn)
      else if notify rn then (Inr (), rn\<lparr> notified := notified rn @ [err] \<rparr>)
      else (Inr (), rn))"

text \<open>
  \<open>_types\<close> is created as \<open>{}\<close>, so reading \<open>this._types[ name ]\<close> finds, where the object
  has no entry of its own, what it inherits from \<open>Object.prototype\<close>. Each inherited
  member is truthy and is represented, like a registered constructor, by what \<open>new\<close> does
  with it: \<open>constructor\<close> is \<open>Object\<close>, which returns its first argument, the dispatcher;
  the others are methods (and, for \<open>__proto__\<close>, the prototype object), which are no
  constructors.
\<close>

definition not_a_constructor :: task_ctor where
  "not_a_constructor = TaskCtor (\<lambda>options. Inl (TypeError ''TaskConstructor is not a constructor''))"

definition Object_constructor :: task_ctor where
  "Object_constructor = TaskCtor (\<lambda>options. Inr Dispatcher)"

definition object_prototype :: "string \<rightharpoonup> task_ctor" where
  "object_prototype name =
     (if name = ''constructor'' then Some Object_constructor
      else if name \<in> set [''__defineGetter__'', ''__defineSetter__'', ''hasOwnProperty'',
                ''__lookupGetter__'', ''__lookupSetter__'', ''isPrototypeOf'',
                ''propertyIsEnumerable'', ''toString'', ''valueOf'', ''__proto__'',
                ''toLocaleString'']
      then Some not_a_constructor
      else None)"

text \<open>
  \<open>getTaskConstructor( name )\<close> returns \<open>this._types[ name ]\<close> if that is truthy and
  \<open>null\<close> otherwise.
\<close>

definition getTaskConstructor :: "runner \<Rightarrow> string \<Rightarrow> task_ctor option" where
  "getTaskConstructor rn name =
     (case types rn name of Some c \<Rightarrow> Some c | None \<Rightarrow> object_prototype name)"

text \<open>
  \<open>register\<close> tests \<open>this._types[ name ]\<close> in the same way and stores with
  \<open>this._types[ name ] = TaskConstructor\<close>. Storing under \<open>__proto__\<close> where the object
  has no such entry makes the function the prototype of \<open>_types\<close>; reading that name then
  yields the function, as the entry does here. What else \<open>_types\<close> then inherits from
  the function is left out.
\<close>

definition register :: "runner \<Rightarrow> string \<Rightarrow> ctor_arg \<Rightarrow> bool \<Rightarrow> (fault + unit) \<times> runner" where
  "register rn name TaskConstructor replace =
     (case TaskConstructor of
        NotCallable v \<Rightarrow>
          error rn (TaskRunnerException (''Task constructor must be a constructor: '' @ name) None)
      | Callable c \<Rightarrow>
          if \<not> replace \<and> (types rn name \<noteq> None \<or> object_prototype name \<noteq> None)
          then error rn (TaskRunnerException (''Task constructor already defined: '' @ name) None)
          else (Inr (), rn\<lparr> types := (types rn)(name \<mapsto> c) \<rparr>))"

section \<open>Running task descriptions (the revision in which arrays are sequences)\<close>

text \<open>
  Every method below returns three things: what the caller receives (\<open>Inl\<close> a thrown fault
  or rejected promise, \<open>Inr\<close> the value returned), the argument object as the call leaves it
  (the task data is modified in place), and the dispatcher afterwards.
\<close>

type_synonym outcome = "(fault + jsval) \<times> jsval \<times> runner"

text \<open>The statement pair \<open>this.error( err ); return ret;\<close>\<close>

definition error_then_return :: "runner \<Rightarrow> fault \<Rightarrow> jsval \<Rightarrow> jsval \<Rightarrow> outcome" where
  "error_then_return rn err ret data =
     (case error rn err of
        (Inl e, rn') \<Rightarrow> (Inl e, data, rn')
      | (Inr u, rn') \<Rightarrow> (Inr ret, data, rn'))"

text \<open>
  \<open>sequence\<close> and \<open>parallel\<close> call \<open>this.run\<close>; the method called is the parameter
  \<open>run'\<close> of \<open>sequence_with\<close> and \<open>parallel_with\<close>, and \<open>sequence\<close> and \<open>parallel\<close>
  further down are the two with the dispatcher's own \<open>run\<close>.

  The loop of \<open>sequence\<close>: \<open>stats[ i ] = await this.run( taskMap[ i ] )\<close>. A rejected call
  ends the loop, the remaining elements are not started.
\<close>

fun sequence_loop :: "(runner \<Rightarrow> jsval \<Rightarrow> outcome) \<Rightarrow> runner \<Rightarrow> jsval list \<Rightarrow> jsval list
    \<Rightarrow> (fault + jsval) \<times> jsval list \<times> runner" where
  "sequence_loop run' rn [] stats = (Inr (JArr stats), [], rn)"
| "sequence_loop run' rn (x # xs) stats =
     (case run' rn x of
        (Inl e, x', rn') \<Rightarrow> (Inl e, x' # xs, rn')
      | (Inr v, x', rn') \<Rightarrow>
          (case sequence_loop run' rn' xs (stats @ [v]) of
             (r, xs', rn'') \<Rightarrow> (r, x' # xs', rn'')))"

definition sequence_with :: "(runner \<Rightarrow> jsval \<Rightarrow> outcome) \<Rightarrow> runner \<Rightarrow> jsval \<Rightarrow> outcome" where
  "sequence_with run' rn taskMap =
     (if \<not> is_array taskMap
      then error_then_return rn
             (TaskRunnerException (''Invalid sequence type: '' @ typeof taskMap) None)
             (JArr []) taskMap
      else (case sequence_loop run' rn (elems taskMap) [] of
              (r, xs', rn') \<Rightarrow> (r, JArr xs', rn')))"

text \<open>
  The promise an asynchronous call returns, and \<open>await Promise.all( tasks )\<close>: it throws the
  reason of a rejected promise if there is one (the earliest started is taken), and
  otherwise yields the values.
\<close>

fun promise :: "fault + jsval \<Rightarrow> jsval" where
  "promise (Inl e) = JRejected e"
| "promise (Inr v) = JResolved v"

fun first_rejected :: "jsval list \<Rightarrow> fault option" where
  "first_rejected [] = None"
| "first_rejected (JRejected e # ts) = Some e"
| "first_rejected (t # ts) = first_rejected ts"

fun settled_value :: "jsval \<Rightarrow> jsval" where
  "settled_value (JResolved v) = v"
| "settled_value v = v"

definition promise_all :: "jsval list \<Rightarrow> fault + jsval list" where
  "promise_all tasks =
     (case first_rejected tasks of Some e \<Rightarrow> Inl e | None \<Rightarrow> Inr (map settled_value tasks))"

text \<open>
  The loop of \<open>parallel\<close>: \<open>stats[ name ] = this.run( value ); tasks.push( stats[ name ] )\<close>.
  Every call is started, whatever the earlier ones did; what is stored is the promise.
\<close>

fun parallel_loop :: "(runner \<Rightarrow> jsval \<Rightarrow> outcome) \<Rightarrow> runner \<Rightarrow> props \<Rightarrow> props \<Rightarrow> jsval list
    \<Rightarrow> (props \<times> jsval list) \<times> props \<times> runner" where
  "parallel_loop run' rn [] stats tasks = ((stats, tasks), [], rn)"
| "parallel_loop run' rn ((name, v) # es) stats tasks =
     (case run' rn v of
        (r, v', rn') \<Rightarrow>
          (case parallel_loop run' rn' es
                  (assign stats name (promise r))
                  (tasks @ [lookup (assign stats name (promise r)) name]) of
             (st, es', rn'') \<Rightarrow> (st, (name, v') # es', rn'')))"

definition parallel_with :: "(runner \<Rightarrow> jsval \<Rightarrow> outcome) \<Rightarrow> runner \<Rightarrow> jsval \<Rightarrow> outcome" where
  "parallel_with run' rn taskMap =
     (if \<not> isPojo taskMap \<or> typeof (get_prop taskMap ''type'') = ''string''
      then error_then_return rn
             (TaskRunnerException (''Invalid parallel type: '' @ typeof taskMap) None)
             (JObj []) taskMap
      else (case parallel_loop run' rn (entries taskMap) [] [] of
              ((stats, tasks), es', rn') \<Rightarrow>
                (case promise_all tasks of
                   Inl e \<Rightarrow> (Inl e, JObj es', rn')
                 | Inr vs \<Rightarrow> (Inr (JObj stats), JObj es', rn'))))"

subsection \<open>Constructing and running one task\<close>

text \<open>\<open>if ( this._parser ) this._parser( taskData )\<close>\<close>

definition apply_parser :: "runner \<Rightarrow> jsval \<Rightarrow> jsval" where
  "apply_parser rn taskData =
     (case parser rn of
        None \<Rightarrow> taskData
      | Some p \<Rightarrow>
          (case taskData of
             JObj ps \<Rightarrow> JObj (p ps)
           | JInst ps \<Rightarrow> JInst (p ps)
           | v \<Rightarrow> v))"

text \<open>\<open>if ( !isPojo( taskData.options ) ) taskData.options = {}\<close>\<close>

definition ensure_options :: "jsval \<Rightarrow> jsval" where
  "ensure_options taskData =
     (if \<not> isPojo (get_prop taskData ''options'')
      then set_prop taskData ''options'' (JObj [])
      else taskData)"

text \<open>\<open>if ( taskData.id ) taskData.options.id = taskData.id\<close>\<close>

definition inject_id :: "jsval \<Rightarrow> jsval" where
  "inject_id taskData =
     (if truthy (get_prop taskData ''id'')
      then set_prop taskData ''options''
             (set_prop (get_prop taskData ''options'') ''id'' (get_prop taskData ''id''))
      else taskData)"

text \<open>
  \<open>if ( !( taskData.args instanceof Array ) ) taskData.args = taskData.args ? [ taskData.args ] : []\<close>
\<close>

definition ensure_args :: "jsval \<Rightarrow> jsval" where
  "ensure_args taskData =
     (if \<not> is_array (get_prop taskData ''args'')
      then set_prop taskData ''args''
             (if truthy (get_prop taskData ''args'') then JArr [get_prop taskData ''args'']
              else JArr [])
      else taskData)"

text \<open>The task data as it stands when the constructor is looked up.\<close>

definition prepare :: "runner \<Rightarrow> jsval \<Rightarrow> jsval" where
  "prepare rn taskData = ensure_args (inject_id (ensure_options (apply_parser rn taskData)))"

text \<open>
  The first parameter of a method called with \<open>...args\<close>, and the task data after the
  object passed there has been modified by the call.
\<close>

fun first_arg :: "jsval list \<Rightarrow> jsval" where
  "first_arg [] = JUndefined"
| "first_arg (a # as) = a"

definition with_first_arg :: "jsval \<Rightarrow> jsval \<Rightarrow> jsval" where
  "with_first_arg taskData a' =
     (case elems (get_prop taskData ''args'') of
        [] \<Rightarrow> taskData
      | a # as \<Rightarrow> set_prop taskData ''args'' (JArr (a' # as)))"

text \<open>
  The rest of \<open>task\<close>: look the constructor up, construct the task with the options, run
  it with the arguments; each failure goes to \<open>error\<close> and yields \<open>null\<close>. Where the
  instance is the dispatcher, \<open>task.run( ...taskData.args )\<close> is \<open>this.run\<close>, the
  parameter \<open>run'\<close>.
\<close>

definition construct_and_run_with :: "(runner \<Rightarrow> jsval \<Rightarrow> outcome) \<Rightarrow> runner \<Rightarrow> jsval \<Rightarrow> outcome" where
  "construct_and_run_with run' rn taskData =
     (case getTaskConstructor rn (to_str (get_prop taskData ''type'')) of
        None \<Rightarrow>
          error_then_return rn
            (TaskRunnerException (''Unknown task type: '' @ to_str (get_prop taskData ''type'')) None)
            JNull taskData
      | Some c \<Rightarrow>
          (case construct c (get_prop taskData ''options'') of
             Inl e \<Rightarrow>
               error_then_return rn
                 (TaskRunnerException
                    (''Failed to construct task: '' @ to_str (get_prop taskData ''type'')) (Some e))
                 JNull taskData
           | Inr (TaskInstance run_task) \<Rightarrow>
               (case run_task (elems (get_prop taskData ''args'')) of
                  Inl e \<Rightarrow>
                    error_then_return rn
                      (TaskRunnerException
                         (''Failed to run task: '' @ to_str (get_prop taskData ''type'')) (Some e))
                      JNull taskData
                | Inr stats \<Rightarrow> (Inr stats, taskData, rn))
           | Inr Dispatcher \<Rightarrow>
               (case run' rn (first_arg (elems (get_prop taskData ''args''))) of
                  (Inl e, a', rn') \<Rightarrow>
                    error_then_return rn'
                      (TaskRunnerException
                         (''Failed to run task: '' @ to_str (get_prop taskData ''type'')) (Some e))
                      JNull (with_first_arg taskData a')
                | (Inr stats, a', rn') \<Rightarrow> (Inr stats, with_first_arg taskData a', rn'))))"

text \<open>\<open>taskData.type.length\<close>, evaluated only where the type is a string.\<close>

fun str_length :: "jsval \<Rightarrow> nat" where
  "str_length (JStr s) = length s"
| "str_length v = 0"

text \<open>
  \<open>task( taskData )\<close>. When the guard rejects \<open>null\<close> or \<open>undefined\<close>, building the
  message reads \<open>taskData.type\<close> and throws before \<open>error\<close> is called. \<open>task_with\<close>
  has the method \<open>this.run\<close> as its parameter; \<open>task\<close> further down is the one with the
  dispatcher's own \<open>run\<close>.
\<close>

definition task_with :: "(runner \<Rightarrow> jsval \<Rightarrow> outcome) \<Rightarrow> runner \<Rightarrow> jsval \<Rightarrow> outcome" where
  "task_with run' rn taskData =
     (if \<not> truthy taskData \<or> typeof taskData \<noteq> ''object''
         \<or> typeof (get_prop taskData ''type'') \<noteq> ''string''
         \<or> str_length (get_prop taskData ''type'') = 0
      then (if taskData = JNull \<or> taskData = JUndefined
            then (Inl (TypeError ''Cannot read properties of null or undefined''), taskData, rn)
            else error_then_return rn
                   (TaskRunnerException
                      (''Invalid task type: '' @ to_str (get_prop taskData ''type'')) None)
                   JNull taskData)
      else construct_and_run_with run' rn (prepare rn taskData))"

subsection \<open>The router\<close>

text \<open>
  The identifiers bound in the body of \<open>run( taskInput )\<close>: its parameter and its local
  \<open>stats\<close>. The module adds \<open>Exception\<close>, \<open>isPojo\<close>, \<open>TaskRunnerException\<close> and
  \<open>TaskRunner\<close>; no scope binds \<open>taskMap\<close>.
\<close>

definition run_scope :: "jsval \<Rightarrow> string \<rightharpoonup> jsval" where
  "run_scope taskInput = [''taskInput'' \<mapsto> taskInput, ''stats'' \<mapsto> JNull]"

text \<open>
  \<open>run( taskInput )\<close>. Its first test reads the identifier \<open>taskMap\<close>; reading an
  identifier that is not bound throws a ReferenceError.
\<close>

function run :: "runner \<Rightarrow> jsval \<Rightarrow> outcome" where
  "run rn taskInput =
     (case run_scope taskInput ''taskMap'' of
        None \<Rightarrow> (Inl (ReferenceError ''taskMap is not defined''), taskInput, rn)
      | Some taskMap \<Rightarrow>
          (if is_array taskMap then sequence_with run rn taskMap
           else if isPojo taskMap then
             (if truthy (get_prop taskInput ''type'') then task_with run rn taskInput
              else parallel_with run rn taskMap)
           else error_then_return rn
                  (TaskRunnerException (''Invalid taskInput type: '' @ typeof taskInput) None)
                  JNull taskInput))"
  by pat_completeness auto
termination
  by (relation "{}") (simp_all add: run_scope_def)

declare run.simps [simp del]

definition sequence :: "runner \<Rightarrow> jsval \<Rightarrow> outcome" where
  "sequence rn taskMap = sequence_with run rn taskMap"

definition parallel :: "runner \<Rightarrow> jsval \<Rightarrow> outcome" where
  "parallel rn taskMap = parallel_with run rn taskMap"

definition construct_and_run :: "runner \<Rightarrow> jsval \<Rightarrow> outcome" where
  "construct_and_run rn taskData = construct_and_run_with run rn taskData"

definition task :: "runner \<Rightarrow> jsval \<Rightarrow> outcome" where
  "task rn taskData = task_with run rn taskData"

section \<open>The revision in which arrays are run in parallel\<close>

text \<open>
  The other revision of the TaskRunner class in the sources. Its \<open>task\<close> has a shorter
  guard, which reads \<open>taskData.type\<close> at once; what follows the guard is the same. Its
  \<open>parallel\<close> takes the array, starts every element and returns \<open>Promise.all\<close> of the
  promises; its \<open>sequence\<close> takes the plain object and awaits entry after entry; neither
  checks its argument, and \<open>run\<close> hands arrays to \<open>parallel\<close> and plain objects
  without a type to \<open>sequence\<close>.

  In this revision \<open>run\<close> works, so a task of type \<open>constructor\<close> (the dispatcher itself)
  takes \<open>task\<close> back into \<open>run\<close> with whatever the parser has put into the arguments: the
  two call each other without bound. \<open>task0\<close> therefore has the method \<open>this.run\<close> as its
  parameter \<open>run'\<close>, and \<open>run0\<close> the method \<open>this.task\<close> as its parameter \<open>task'\<close>.
\<close>

definition task0 :: "(runner \<Rightarrow> jsval \<Rightarrow> outcome) \<Rightarrow> runner \<Rightarrow> jsval \<Rightarrow> outcome" where
  "task0 run' rn taskData =
     (if taskData = JNull \<or> taskData = JUndefined
      then (Inl (TypeError ''Cannot read properties of null or undefined''), taskData, rn)
      else if typeof (get_prop taskData ''type'') \<noteq> ''string''
              \<or> str_length (get_prop taskData ''type'') = 0
      then error_then_return rn
             (TaskRunnerException
                (''Invalid task type: '' @ to_str (get_prop taskData ''type'')) None)
             JNull taskData
      else construct_and_run_with run' rn (prepare rn taskData))"

fun run0 :: "(runner \<Rightarrow> jsval \<Rightarrow> outcome) \<Rightarrow> runner \<Rightarrow> jsval \<Rightarrow> outcome"
  and parallel0 :: "(runner \<Rightarrow> jsval \<Rightarrow> outcome) \<Rightarrow> runner \<Rightarrow> jsval list
    \<Rightarrow> (fault + jsval) \<times> jsval list \<times> runner"
  and parallel0_loop :: "(runner \<Rightarrow> jsval \<Rightarrow> outcome) \<Rightarrow> runner \<Rightarrow> jsval list \<Rightarrow> jsval list
    \<Rightarrow> jsval list \<times> jsval list \<times> runner"
  and sequence0 :: "(runner \<Rightarrow> jsval \<Rightarrow> outcome) \<Rightarrow> runner \<Rightarrow> props
    \<Rightarrow> (fault + jsval) \<times> props \<times> runner"
  and sequence0_loop :: "(runner \<Rightarrow> jsval \<Rightarrow> outcome) \<Rightarrow> runner \<Rightarrow> props \<Rightarrow> props
    \<Rightarrow> (fault + jsval) \<times> props \<times> runner"
where
  "run0 task' rn (JArr xs) =
     (case parallel0 task' rn xs of (r, xs', rn') \<Rightarrow> (r, JArr xs', rn'))"
| "run0 task' rn (JObj ps) =
     (if truthy (get_prop (JObj ps) ''type'') then task' rn (JObj ps)
      else (case sequence0 task' rn ps of (r, ps', rn') \<Rightarrow> (r, JObj ps', rn')))"
| "run0 task' rn v =
     error_then_return rn
       (TaskRunnerException (''Invalid taskMap type: '' @ typeof v) None) JNull v"
| "parallel0 task' rn taskMap =
     (case parallel0_loop task' rn taskMap [] of
        (tasks, xs', rn') \<Rightarrow>
          (case promise_all tasks of
             Inl e \<Rightarrow> (Inl e, xs', rn')
           | Inr vs \<Rightarrow> (Inr (JArr vs), xs', rn')))"
| "parallel0_loop task' rn [] tasks = (tasks, [], rn)"
| "parallel0_loop task' rn (x # xs) tasks =
     (case run0 task' rn x of
        (r, x', rn') \<Rightarrow>
          (case parallel0_loop task' rn' xs (tasks @ [promise r]) of
             (ts, xs', rn'') \<Rightarrow> (ts, x' # xs', rn'')))"
| "sequence0 task' rn taskMap = sequence0_loop task' rn taskMap []"
| "sequence0_loop task' rn [] stats = (Inr (JObj stats), [], rn)"
| "sequence0_loop task' rn ((name, v) # es) stats =
     (case run0 task' rn v of
        (Inl e, v', rn') \<Rightarrow> (Inl e, (name, v') # es, rn')
      | (Inr s, v', rn') \<Rightarrow>
          (case sequence0_loop task' rn' es (assign stats name s) of
             (r, es', rn'') \<Rightarrow> (r, (name, v') # es', rn'')))"

section \<open>The Task class\<close>

text \<open>
  Modelled from the spec: \<open>Timer\<close> of the package node-util is not part of the sources.
  The spec asks for a monotonic measurement of the time elapsed since the construction
  moment; the Task class documents the \<open>time\<close> of a stats object as a pair in the format of
  \<open>process.hrtime\<close>, seconds and nanoseconds. Clock readings are nanoseconds.
\<close>

datatype timer = Timer (started: nat)

definition timer_end :: "timer \<Rightarrow> nat \<Rightarrow> jsval" where
  "timer_end tm now =
     JArr [JNum (int ((now - started tm) div 1000000000)),
           JNum (int ((now - started tm) mod 1000000000))]"

text \<open>
  Modelled from the spec: \<open>cloneObject\<close> and \<open>mergeObject\<close> of the package node-objection
  are not part of the sources. The clone is a structural copy independent of its source,
  which for values is the value itself. The merge is recursive, replaces arrays wholesale,
  and later values win.
\<close>

definition cloneObject :: "props \<Rightarrow> props" where
  "cloneObject source = source"

fun mergeObject :: "props \<Rightarrow> props \<Rightarrow> props" where
  "mergeObject target [] = target"
| "mergeObject target ((k, v) # changes) =
     mergeObject
       (assign target k
          (case v of
             JObj cv \<Rightarrow>
               (case lookup target k of
                  JObj tv \<Rightarrow> JObj (mergeObject tv cv)
                | _ \<Rightarrow> JObj (mergeObject [] cv))
           | _ \<Rightarrow> v))
       changes"

text \<open>
  The fields of a Task: \<open>timer\<close>, \<open>_defaults\<close> and the effective options \<open>_\<close>. The
  back-reference \<open>runner\<close> is stored and never read by the class.
\<close>

record task_obj =
  timer :: timer
  defaults :: props
  opts :: props

text \<open>
  The constructor \<open>Task( runner, options, defaults )\<close>. \<open>strand\<close> is the identifier the
  generator of node-util returns when it is asked, \<open>now\<close> the clock at the construction.
\<close>

definition Task :: "string \<Rightarrow> nat \<Rightarrow> jsval \<Rightarrow> props \<Rightarrow> task_obj" where
  "Task strand now options defaults' =
     (let defaults1 = (if \<not> truthy (lookup defaults' ''id'')
                       then assign defaults' ''id'' (JStr strand) else defaults');
          merged = (if truthy options \<and> isPojo options
                    then mergeObject (cloneObject defaults1) (entries options)
                    else cloneObject defaults1)
      in \<lparr> timer = Timer now, defaults = defaults1, opts = merged \<rparr>)"

text \<open>
  \<open>stats( data = {} )\<close> for a mapping or no argument: \<open>data.id = this._.id\<close>,
  \<open>data.time = this.timer.end( 'construct' )\<close>, with the clock reading \<open>now\<close> at the call.
\<close>

definition stats :: "task_obj \<Rightarrow> nat \<Rightarrow> props option \<Rightarrow> props" where
  "stats tk now data =
     assign (assign (case data of None \<Rightarrow> [] | Some d \<Rightarrow> d) ''id'' (lookup (opts tk) ''id''))
       ''time'' (timer_end (timer tk) now)"

text \<open>The \<open>run\<close> method of the base class.\<close>

definition Task_run :: "task_obj \<Rightarrow> jsval list \<Rightarrow> fault + jsval" where
  "Task_run tk args = Inl (TaskException ''Task must implement a run method'')"

text \<open>
  A class that extends Task as a registered constructor: its constructor hands the options
  on to the constructor of Task together with its defaults, its \<open>run\<close> method is
  \<open>run_impl\<close>. The base class itself is \<open>task_class strand now [] Task_run\<close>.
\<close>

definition task_class ::
  "string \<Rightarrow> nat \<Rightarrow> props \<Rightarrow> (task_obj \<Rightarrow> jsval list \<Rightarrow> fault + jsval) \<Rightarrow> task_ctor" where
  "task_class strand now defaults' run_impl =
     TaskCtor (\<lambda>options. Inr (TaskInstance (run_impl (Task strand now options defaults'))))"

section \<open>Example tasks\<close>

text \<open>
  Three constructors for the evaluations below: one that throws, the task of the spec's
  scenario whose \<open>run\<close> resolves at once with \<open>this.stats( {} )\<close>, and a task whose
  \<open>run\<close> resolves with the arguments it was given.
\<close>

definition failing_ctor :: task_ctor where
  "failing_ctor = TaskCtor (\<lambda>options. Inl (Thrown ''constructor failed''))"

definition noop_run :: "nat \<Rightarrow> task_obj \<Rightarrow> jsval list \<Rightarrow> fault + jsval" where
  "noop_run now tk args = Inr (JObj (stats tk now (Some [])))"

definition echo_run :: "task_obj \<Rightarrow> jsval list \<Rightarrow> fault + jsval" where
  "echo_run tk args = Inr (JArr args)"

section \<open>Properties\<close>

subsection \<open>Reading and writing properties\<close>

lemma lookup_assign: "lookup (assign ps k v) k' = (if k' = k then v else lookup ps k')"
  by (induction ps) auto

lemma typed_is_object:
  assumes "get_prop d ''type'' = JStr ty"
  shows "(\<exists>ps. d = JObj ps) \<or> (\<exists>ps. d = JInst ps)"
  using assms by (cases d) (simp_all add: get_prop_def)

lemma get_set_prop:
  assumes "(\<exists>ps. d = JObj ps) \<or> (\<exists>ps. d = JInst ps)"
  shows "get_prop (set_prop d k v) k' = (if k' = k then v else get_prop d k')"
  using assms by (auto simp: get_prop_def lookup_assign)

lemma apply_parser_object:
  assumes "(\<exists>ps. d = JObj ps) \<or> (\<exists>ps. d = JInst ps)"
  shows "(\<exists>ps. apply_parser rn d = JObj ps) \<or> (\<exists>ps. apply_parser rn d = JInst ps)"
  using assms by (auto simp: apply_parser_def split: option.splits)

lemma ensure_options_object:
  assumes "(\<exists>ps. d = JObj ps) \<or> (\<exists>ps. d = JInst ps)"
  shows "(\<exists>ps. ensure_options d = JObj ps) \<or> (\<exists>ps. ensure_options d = JInst ps)"
  using assms by (auto simp: ensure_options_def)

lemma inject_id_object:
  assumes "(\<exists>ps. d = JObj ps) \<or> (\<exists>ps. d = JInst ps)"
  shows "(\<exists>ps. inject_id d = JObj ps) \<or> (\<exists>ps. inject_id d = JInst ps)"
  using assms by (auto simp: inject_id_def)

subsection \<open>What the steps of \<open>task\<close> leave in the task data\<close>

lemma prepare_type:
  assumes "(\<exists>ps. d = JObj ps) \<or> (\<exists>ps. d = JInst ps)"
  shows "get_prop (prepare rn d) ''type'' = get_prop (apply_parser rn d) ''type''"
proof -
  let ?d1 = "apply_parser rn d"
  let ?d2 = "ensure_options ?d1"
  let ?d3 = "inject_id ?d2"
  have o1: "(\<exists>ps. ?d1 = JObj ps) \<or> (\<exists>ps. ?d1 = JInst ps)"
    using assms by (rule apply_parser_object)
  have o2: "(\<exists>ps. ?d2 = JObj ps) \<or> (\<exists>ps. ?d2 = JInst ps)"
    using o1 by (rule ensure_options_object)
  have o3: "(\<exists>ps. ?d3 = JObj ps) \<or> (\<exists>ps. ?d3 = JInst ps)"
    using o2 by (rule inject_id_object)
  have "get_prop (ensure_args ?d3) ''type'' = get_prop ?d3 ''type''"
    by (simp add: ensure_args_def get_set_prop [OF o3])
  also have "\<dots> = get_prop ?d2 ''type''"
    by (simp add: inject_id_def get_set_prop [OF o2])
  also have "\<dots> = get_prop ?d1 ''type''"
    by (simp add: ensure_options_def get_set_prop [OF o1])
  finally show ?thesis by (simp add: prepare_def)
qed

lemma prepare_args:
  assumes "(\<exists>ps. d = JObj ps) \<or> (\<exists>ps. d = JInst ps)"
  shows "get_prop (prepare rn d) ''args'' =
           (if is_array (get_prop (apply_parser rn d) ''args'')
            then get_prop (apply_parser rn d) ''args''
            else if truthy (get_prop (apply_parser rn d) ''args'')
            then JArr [get_prop (apply_parser rn d) ''args''] else JArr [])"
proof -
  let ?d1 = "apply_parser rn d"
  let ?d2 = "ensure_options ?d1"
  let ?d3 = "inject_id ?d2"
  have o1: "(\<exists>ps. ?d1 = JObj ps) \<or> (\<exists>ps. ?d1 = JInst ps)"
    using assms by (rule apply_parser_object)
  have o2: "(\<exists>ps. ?d2 = JObj ps) \<or> (\<exists>ps. ?d2 = JInst ps)"
    using o1 by (rule ensure_options_object)
  have o3: "(\<exists>ps. ?d3 = JObj ps) \<or> (\<exists>ps. ?d3 = JInst ps)"
    using o2 by (rule inject_id_object)
  have a2: "get_prop ?d2 ''args'' = get_prop ?d1 ''args''"
    by (simp add: ensure_options_def get_set_prop [OF o1])
  have a3: "get_prop ?d3 ''args'' = get_prop ?d1 ''args''"
    using a2 by (simp add: inject_id_def get_set_prop [OF o2])
  show ?thesis
    unfolding prepare_def using a3 by (simp add: ensure_args_def get_set_prop [OF o3])
qed

lemma prepare_options:
  assumes "(\<exists>ps. d = JObj ps) \<or> (\<exists>ps. d = JInst ps)"
  shows "get_prop (prepare rn d) ''options'' =
           (if truthy (get_prop (apply_parser rn d) ''id'')
            then set_prop
                   (if isPojo (get_prop (apply_parser rn d) ''options'')
                    then get_prop (apply_parser rn d) ''options'' else JObj [])
                   ''id'' (get_prop (apply_parser rn d) ''id'')
            else if isPojo (get_prop (apply_parser rn d) ''options'')
            then get_prop (apply_parser rn d) ''options'' else JObj [])"
proof -
  let ?d1 = "apply_parser rn d"
  let ?d2 = "ensure_options ?d1"
  let ?d3 = "inject_id ?d2"
  have o1: "(\<exists>ps. ?d1 = JObj ps) \<or> (\<exists>ps. ?d1 = JInst ps)"
    using assms by (rule apply_parser_object)
  have o2: "(\<exists>ps. ?d2 = JObj ps) \<or> (\<exists>ps. ?d2 = JInst ps)"
    using o1 by (rule ensure_options_object)
  have o3: "(\<exists>ps. ?d3 = JObj ps) \<or> (\<exists>ps. ?d3 = JInst ps)"
    using o2 by (rule inject_id_object)
  have p2: "get_prop ?d2 ''options'' =
      (if isPojo (get_prop ?d1 ''options'') then get_prop ?d1 ''options'' else JObj [])"
    by (simp add: ensure_options_def get_set_prop [OF o1])
  have i2: "get_prop ?d2 ''id'' = get_prop ?d1 ''id''"
    by (simp add: ensure_options_def get_set_prop [OF o1])
  have p3: "get_prop ?d3 ''options'' =
      (if truthy (get_prop ?d1 ''id'')
       then set_prop (get_prop ?d2 ''options'') ''id'' (get_prop ?d1 ''id'')
       else get_prop ?d2 ''options'')"
    using i2 by (simp add: inject_id_def get_set_prop [OF o2])
  have "get_prop (ensure_args ?d3) ''options'' = get_prop ?d3 ''options''"
    by (simp add: ensure_args_def get_set_prop [OF o3])
  then show ?thesis
    unfolding prepare_def using p3 p2 by simp
qed

lemma prepare_other:
  assumes "(\<exists>ps. d = JObj ps) \<or> (\<exists>ps. d = JInst ps)"
    and "k \<noteq> ''options''" and "k \<noteq> ''args''"
  shows "get_prop (prepare rn d) k = get_prop (apply_parser rn d) k"
proof -
  let ?d1 = "apply_parser rn d"
  let ?d2 = "ensure_options ?d1"
  let ?d3 = "inject_id ?d2"
  have o1: "(\<exists>ps. ?d1 = JObj ps) \<or> (\<exists>ps. ?d1 = JInst ps)"
    using assms(1) by (rule apply_parser_object)
  have o2: "(\<exists>ps. ?d2 = JObj ps) \<or> (\<exists>ps. ?d2 = JInst ps)"
    using o1 by (rule ensure_options_object)
  have o3: "(\<exists>ps. ?d3 = JObj ps) \<or> (\<exists>ps. ?d3 = JInst ps)"
    using o2 by (rule inject_id_object)
  have "get_prop (ensure_args ?d3) k = get_prop ?d3 k"
    using assms(3) by (simp add: ensure_args_def get_set_prop [OF o3])
  also have "\<dots> = get_prop ?d2 k"
    using assms(2) by (simp add: inject_id_def get_set_prop [OF o2])
  also have "\<dots> = get_prop ?d1 k"
    using assms(2) by (simp add: ensure_options_def get_set_prop [OF o1])
  finally show ?thesis by (simp add: prepare_def)
qed

text \<open>A task data object that passes the guard of \<open>task\<close> goes through every step.\<close>

lemma task_valid:
  assumes "get_prop d ''type'' = JStr ty" and "ty \<noteq> []"
  shows "task rn d = construct_and_run rn (prepare rn d)"
proof -
  from assms(1) have "(\<exists>ps. d = JObj ps) \<or> (\<exists>ps. d = JInst ps)" by (rule typed_is_object)
  then have "truthy d" and "typeof d = ''object''" by auto
  with assms show ?thesis by (simp add: task_def task_with_def construct_and_run_def)
qed

lemma error_then_return_data: "fst (snd (error_then_return rn err ret data)) = data"
  by (simp add: error_then_return_def error_def)

text \<open>Every call of \<open>run\<close> is rejected, and leaves its argument and the dispatcher alone.\<close>

lemma run_rejects: "run rn v = (Inl (ReferenceError ''taskMap is not defined''), v, rn)"
  by (simp add: run.simps run_scope_def)

lemma assign_same: "lookup ps k \<noteq> JUndefined \<Longrightarrow> assign ps k (lookup ps k) = ps"
  by (induction ps) auto

lemma set_prop_same: "get_prop d k \<noteq> JUndefined \<Longrightarrow> set_prop d k (get_prop d k) = d"
  by (cases d) (simp_all add: get_prop_def assign_same)

lemma with_first_arg_same:
  "with_first_arg d (first_arg (elems (get_prop d ''args''))) = d"
proof (cases "elems (get_prop d ''args'')")
  case Nil
  then show ?thesis by (simp add: with_first_arg_def)
next
  case (Cons a as)
  then have g: "get_prop d ''args'' = JArr (a # as)"
    by (cases "get_prop d ''args''") simp_all
  then have "set_prop d ''args'' (JArr (a # as)) = d"
    using set_prop_same [of d "''args''"] by simp
  then show ?thesis
    using Cons by (simp add: with_first_arg_def)
qed

lemma construct_and_run_data: "fst (snd (construct_and_run rn taskData)) = taskData"
  by (simp add: construct_and_run_def construct_and_run_with_def error_then_return_data
      run_rejects with_first_arg_same split: option.splits sum.splits task_instance.splits)

lemma wrapped_differs: "TaskRunnerException m (Some e) \<noteq> e"
proof
  assume "TaskRunnerException m (Some e) = e"
  then have "size (TaskRunnerException m (Some e)) = size e" by simp
  then show False by simp
qed

subsection \<open>The registry\<close>

text \<open>
  C4. When the registry holds a constructor for \<open>name\<close>, registering a callable under that
  name without \<open>replace\<close> hands the fault "Task constructor already defined" to \<open>error\<close>
  (thrown in strict mode, passed to the notify callback otherwise), leaves the registry as
  it was, and \<open>getTaskConstructor\<close> still returns the original; with \<open>replace\<close> the call
  succeeds and \<open>getTaskConstructor\<close> returns the new constructor.
\<close>

theorem register_existing_entry:
  assumes "types rn name = Some c0"
  shows "register rn name (Callable c) False
           = error rn (TaskRunnerException (''Task constructor already defined: '' @ name) None)
       \<and> types (snd (register rn name (Callable c) False)) = types rn
       \<and> getTaskConstructor (snd (register rn name (Callable c) False)) name = Some c0
       \<and> (strict rn \<longrightarrow> fst (register rn name (Callable c) False)
             = Inl (TaskRunnerException (''Task constructor already defined: '' @ name) None))
       \<and> (\<not> strict rn \<longrightarrow> fst (register rn name (Callable c) False) = Inr ())
       \<and> (\<not> strict rn \<and> notify rn \<longrightarrow> notified (snd (register rn name (Callable c) False))
             = notified rn @ [TaskRunnerException (''Task constructor already defined: '' @ name) None])
       \<and> fst (register rn name (Callable c) True) = Inr ()
       \<and> getTaskConstructor (snd (register rn name (Callable c) True)) name = Some c"
  using assms by (simp add: register_def object_prototype_def error_def getTaskConstructor_def object_prototype_def)

theorem register_existing_entry_witness:
  "types (snd (register (TaskRunner False True None) ''noop'' (Callable failing_ctor) False)) ''noop''
     = Some failing_ctor
   \<and> getTaskConstructor
       (snd (register (snd (register (TaskRunner False True None) ''noop'' (Callable failing_ctor) False))
          ''noop'' (Callable (task_class ''t1'' 0 [] Task_run)) False)) ''noop''
     = Some failing_ctor
   \<and> fst (register (snd (register (TaskRunner False True None) ''noop'' (Callable failing_ctor) False))
          ''noop'' (Callable (task_class ''t1'' 0 [] Task_run)) False) = Inr ()
   \<and> notified
       (snd (register (snd (register (TaskRunner False True None) ''noop'' (Callable failing_ctor) False))
          ''noop'' (Callable (task_class ''t1'' 0 [] Task_run)) False))
     = [TaskRunnerException ''Task constructor already defined: noop'' None]
   \<and> getTaskConstructor
       (snd (register (snd (register (TaskRunner False True None) ''noop'' (Callable failing_ctor) False))
          ''noop'' (Callable (task_class ''t1'' 0 [] Task_run)) True)) ''noop''
     = Some (task_class ''t1'' 0 [] Task_run)"
proof -
  let ?rn = "snd (register (TaskRunner False True None) ''noop'' (Callable failing_ctor) False)"
  have h: "types ?rn ''noop'' = Some failing_ctor"
    by (simp add: register_def object_prototype_def TaskRunner_def)
  have s: "\<not> strict ?rn" "notify ?rn" "notified ?rn = []"
    by (simp_all add: register_def object_prototype_def TaskRunner_def)
  note t = register_existing_entry [OF h, of "task_class ''t1'' 0 [] Task_run"]
  let ?r = "register ?rn ''noop'' (Callable (task_class ''t1'' 0 [] Task_run)) False"
  let ?r' = "register ?rn ''noop'' (Callable (task_class ''t1'' 0 [] Task_run)) True"
  have c1: "getTaskConstructor (snd ?r) ''noop'' = Some failing_ctor"
    using t by blast
  have c2: "fst ?r = Inr ()"
    using t s by blast
  have "notified (snd ?r)
      = notified ?rn @ [TaskRunnerException (''Task constructor already defined: '' @ ''noop'') None]"
    using t s by blast
  then have c3: "notified (snd ?r) = [TaskRunnerException ''Task constructor already defined: noop'' None]"
    using s by simp
  have c4: "getTaskConstructor (snd ?r') ''noop'' = Some (task_class ''t1'' 0 [] Task_run)"
    using t by blast
  show ?thesis
    using h c1 c2 c3 c4 by (intro conjI)
qed

subsection \<open>Faults of \<open>task\<close>\<close>

text \<open>
  A task data object with a non-empty string type for which \<open>getTaskConstructor\<close> returns
  \<open>null\<close> (the type read after the parser, if one is configured, has seen the object): on
  a dispatcher that is not strict, \<open>task\<close> does not throw, it returns \<open>null\<close>, the notify
  callback, if configured, receives the fault "Unknown task type", and the registry is
  unchanged.
\<close>

lemma task_unknown_type:
  assumes "get_prop d ''type'' = JStr ty" and "ty \<noteq> []"
    and "get_prop (apply_parser rn d) ''type'' = JStr ty'"
    and "getTaskConstructor rn ty' = None"
    and "\<not> strict rn"
  shows "task rn d =
           (Inr JNull, prepare rn d,
            if notify rn
            then rn\<lparr> notified := notified rn @ [TaskRunnerException (''Unknown task type: '' @ ty') None] \<rparr>
            else rn)
       \<and> types (snd (snd (task rn d))) = types rn"
proof -
  from assms(1) have obj: "(\<exists>ps. d = JObj ps) \<or> (\<exists>ps. d = JInst ps)" by (rule typed_is_object)
  have ty: "get_prop (prepare rn d) ''type'' = JStr ty'"
    using prepare_type [OF obj] assms(3) by simp
  have "task rn d = construct_and_run rn (prepare rn d)"
    using assms(1,2) by (rule task_valid)
  then show ?thesis
    using ty assms(4,5) by (simp add: construct_and_run_def construct_and_run_with_def error_then_return_def error_def)
qed

lemma task_unknown_type_example:
  "get_prop (JObj [(''type'', JStr ''noop'')]) ''type'' = JStr ''noop''
   \<and> getTaskConstructor (TaskRunner False True None) ''noop'' = None
   \<and> fst (task (TaskRunner False True None) (JObj [(''type'', JStr ''noop'')])) = Inr JNull
   \<and> notified (snd (snd (task (TaskRunner False True None) (JObj [(''type'', JStr ''noop'')]))))
       = [TaskRunnerException ''Unknown task type: noop'' None]"
proof -
  let ?rn = "TaskRunner False True None"
  let ?d = "JObj [(''type'', JStr ''noop'')]"
  have h1: "get_prop ?d ''type'' = JStr ''noop''" by (simp add: get_prop_def)
  have h2: "''noop'' \<noteq> []" by simp
  have h3: "get_prop (apply_parser ?rn ?d) ''type'' = JStr ''noop''"
    by (simp add: apply_parser_def TaskRunner_def get_prop_def)
  have h4: "getTaskConstructor ?rn ''noop'' = None"
    by (simp add: getTaskConstructor_def object_prototype_def TaskRunner_def)
  have h5: "\<not> strict ?rn" by (simp add: TaskRunner_def)
  have n: "notify ?rn" "notified ?rn = []" by (simp_all add: TaskRunner_def)
  show ?thesis
    using h1 h4 n task_unknown_type [OF h1 h2 h3 h4 h5] by simp
qed

text \<open>
  C5. What \<open>task\<close> does with a type that nobody has registered and that names a method
  every object inherits, such as \<open>toString\<close>: \<open>getTaskConstructor\<close> does not return
  \<open>null\<close> but the inherited method, \<open>new\<close> throws a TypeError on it, and on a dispatcher
  that is not strict (without a parser) \<open>task\<close> returns \<open>null\<close> after handing the fault
  "Failed to construct task", not "Unknown task type", to the notify callback.
\<close>

theorem task_inherited_type:
  assumes "object_prototype name = Some not_a_constructor"
    and "types rn name = None" and "parser rn = None" and "\<not> strict rn"
  shows "getTaskConstructor rn name = Some not_a_constructor
       \<and> task rn (JObj [(''type'', JStr name)]) =
           (Inr JNull,
            JObj [(''type'', JStr name), (''options'', JObj []), (''args'', JArr [])],
            if notify rn
            then rn\<lparr> notified := notified rn
                   @ [TaskRunnerException (''Failed to construct task: '' @ name)
                        (Some (TypeError ''TaskConstructor is not a constructor''))] \<rparr>
            else rn)"
proof -
  let ?d = "JObj [(''type'', JStr name)]"
  have ne: "name \<noteq> []"
    using assms(1) by (auto simp: object_prototype_def split: if_splits)
  have h1: "get_prop ?d ''type'' = JStr name" by (simp add: get_prop_def)
  have g: "getTaskConstructor rn name = Some not_a_constructor"
    using assms(1,2) by (simp add: getTaskConstructor_def)
  have p: "prepare rn ?d = JObj [(''type'', JStr name), (''options'', JObj []), (''args'', JArr [])]"
    using assms(3)
    by (simp add: prepare_def apply_parser_def ensure_options_def inject_id_def ensure_args_def
        get_prop_def)
  have "task rn ?d = construct_and_run rn (prepare rn ?d)"
    using h1 ne by (rule task_valid)
  then show ?thesis
    using g p assms(4)
    by (simp add: construct_and_run_def construct_and_run_with_def get_prop_def
        not_a_constructor_def error_then_return_def error_def)
qed

theorem task_inherited_type_witness:
  "getTaskConstructor (TaskRunner False True None) ''toString'' = Some not_a_constructor
   \<and> fst (task (TaskRunner False True None) (JObj [(''type'', JStr ''toString'')])) = Inr JNull
   \<and> notified (snd (snd (task (TaskRunner False True None) (JObj [(''type'', JStr ''toString'')]))))
       = [TaskRunnerException ''Failed to construct task: toString''
            (Some (TypeError ''TaskConstructor is not a constructor''))]"
proof -
  let ?rn = "TaskRunner False True None"
  have h1: "object_prototype ''toString'' = Some not_a_constructor"
    by (simp add: object_prototype_def)
  have h2: "types ?rn ''toString'' = None" and h3: "parser ?rn = None" and h4: "\<not> strict ?rn"
    by (simp_all add: TaskRunner_def)
  have n: "notify ?rn" "notified ?rn = []" by (simp_all add: TaskRunner_def)
  note t = task_inherited_type [OF h1 h2 h3 h4]
  have c1: "getTaskConstructor ?rn ''toString'' = Some not_a_constructor"
    using t by blast
  have "task ?rn (JObj [(''type'', JStr ''toString'')]) =
      (Inr JNull,
       JObj [(''type'', JStr ''toString''), (''options'', JObj []), (''args'', JArr [])],
       if notify ?rn
       then ?rn\<lparr> notified := notified ?rn
              @ [TaskRunnerException (''Failed to construct task: '' @ ''toString'')
                   (Some (TypeError ''TaskConstructor is not a constructor''))] \<rparr>
       else ?rn)"
    using t by blast
  then have c2: "fst (task ?rn (JObj [(''type'', JStr ''toString'')])) = Inr JNull"
    and c3: "notified (snd (snd (task ?rn (JObj [(''type'', JStr ''toString'')]))))
       = [TaskRunnerException ''Failed to construct task: toString''
            (Some (TypeError ''TaskConstructor is not a constructor''))]"
    using n by simp_all
  show ?thesis using c1 c2 c3 by (intro conjI)
qed

text \<open>
  The same reading of \<open>_types\<close> makes the type \<open>constructor\<close> construct the dispatcher
  and run the router as the task, and makes \<open>register\<close> refuse an inherited name on a
  dispatcher where nothing is registered.
\<close>

lemma task_constructor_type_example:
  "fst (task (TaskRunner False True None) (JObj [(''type'', JStr ''constructor'')])) = Inr JNull
   \<and> notified (snd (snd (task (TaskRunner False True None) (JObj [(''type'', JStr ''constructor'')]))))
       = [TaskRunnerException ''Failed to run task: constructor''
            (Some (ReferenceError ''taskMap is not defined''))]"
  by (simp add: task_def task_with_def get_prop_def prepare_def apply_parser_def
      ensure_options_def inject_id_def ensure_args_def construct_and_run_with_def
      getTaskConstructor_def object_prototype_def Object_constructor_def TaskRunner_def
      run_rejects error_then_return_def error_def with_first_arg_def)

lemma register_inherited_name_example:
  "register (TaskRunner True False None) ''toString'' (Callable failing_ctor) False
     = (Inl (TaskRunnerException ''Task constructor already defined: toString'' None),
        TaskRunner True False None)"
  by (simp add: register_def object_prototype_def error_def TaskRunner_def)

text \<open>
  C6. A task data object whose registered constructor throws \<open>e\<close> when it is given the
  options: the fault of \<open>task\<close> is "Failed to construct task", which wraps \<open>e\<close> and is not
  \<open>e\<close>. On a strict dispatcher that fault is thrown to the caller; otherwise \<open>task\<close> returns
  \<open>null\<close> and the fault goes to the notify callback, if one is configured.
\<close>

theorem task_constructor_throws:
  assumes "get_prop d ''type'' = JStr ty" and "ty \<noteq> []"
    and "get_prop (apply_parser rn d) ''type'' = JStr ty'"
    and "getTaskConstructor rn ty' = Some c"
    and "construct c (get_prop (prepare rn d) ''options'') = Inl e"
  shows "task rn d =
           (if strict rn
            then (Inl (TaskRunnerException (''Failed to construct task: '' @ ty') (Some e)),
                  prepare rn d, rn)
            else (Inr JNull, prepare rn d,
                  if notify rn
                  then rn\<lparr> notified := notified rn
                         @ [TaskRunnerException (''Failed to construct task: '' @ ty') (Some e)] \<rparr>
                  else rn))
       \<and> TaskRunnerException (''Failed to construct task: '' @ ty') (Some e) \<noteq> e"
proof -
  from assms(1) have obj: "(\<exists>ps. d = JObj ps) \<or> (\<exists>ps. d = JInst ps)" by (rule typed_is_object)
  have ty: "get_prop (prepare rn d) ''type'' = JStr ty'"
    using prepare_type [OF obj] assms(3) by simp
  have "task rn d = construct_and_run rn (prepare rn d)"
    using assms(1,2) by (rule task_valid)
  then show ?thesis
    using ty assms(4,5) wrapped_differs
    by (simp add: construct_and_run_def construct_and_run_with_def error_then_return_def error_def)
qed

theorem task_constructor_throws_witness:
  "getTaskConstructor
       (snd (register (TaskRunner False True None) ''bad'' (Callable failing_ctor) False)) ''bad''
     = Some failing_ctor
   \<and> fst (task (snd (register (TaskRunner False True None) ''bad'' (Callable failing_ctor) False))
          (JObj [(''type'', JStr ''bad'')])) = Inr JNull
   \<and> notified (snd (snd
        (task (snd (register (TaskRunner False True None) ''bad'' (Callable failing_ctor) False))
          (JObj [(''type'', JStr ''bad'')]))))
     = [TaskRunnerException ''Failed to construct task: bad'' (Some (Thrown ''constructor failed''))]
   \<and> fst (task (snd (register (TaskRunner True False None) ''bad'' (Callable failing_ctor) False))
          (JObj [(''type'', JStr ''bad'')]))
     = Inl (TaskRunnerException ''Failed to construct task: bad'' (Some (Thrown ''constructor failed'')))"
proof -
  let ?d = "JObj [(''type'', JStr ''bad'')]"
  have h1: "get_prop ?d ''type'' = JStr ''bad''" by (simp add: get_prop_def)
  have h2: "''bad'' \<noteq> []" by simp
  have e: "construct failing_ctor v = Inl (Thrown ''constructor failed'')" for v
    by (simp add: failing_ctor_def)
  { fix s n
    let ?rn = "snd (register (TaskRunner s n None) ''bad'' (Callable failing_ctor) False)"
    have f: "strict ?rn = s" "notify ?rn = n" "notified ?rn = []" "parser ?rn = None"
      by (simp_all add: register_def object_prototype_def TaskRunner_def)
    have h3: "get_prop (apply_parser ?rn ?d) ''type'' = JStr ''bad''"
      using f by (simp add: apply_parser_def get_prop_def)
    have h4: "getTaskConstructor ?rn ''bad'' = Some failing_ctor"
      by (simp add: getTaskConstructor_def object_prototype_def register_def object_prototype_def TaskRunner_def)
    note f h4 task_constructor_throws [OF h1 h2 h3 h4 e]
  }
  note r = this
  show ?thesis
    using r [of False True] r [of True False] by simp
qed

subsection \<open>Property lists and the merge of options\<close>

lemma assign_member: "(k, v) \<in> set (assign ps k v)"
  by (induction ps) auto

lemma assign_keys: "fst ` set (assign ps k v) = insert k (fst ` set ps)"
proof (induction ps)
  case Nil
  show ?case by simp
next
  case (Cons p ps)
  obtain k' v' where p: "p = (k', v')" by (cases p)
  show ?case
  proof (cases "k' = k")
    case True
    with p show ?thesis by simp
  next
    case False
    with p Cons.IH show ?thesis by (simp add: insert_commute)
  qed
qed

lemma assign_distinct: "distinct (map fst ps) \<Longrightarrow> distinct (map fst (assign ps k v))"
proof (induction ps)
  case Nil
  show ?case by simp
next
  case (Cons p ps)
  obtain k' v' where p: "p = (k', v')" by (cases p)
  show ?case
  proof (cases "k' = k")
    case True
    with p Cons.prems show ?thesis by simp
  next
    case False
    with p Cons show ?thesis by (simp add: assign_keys)
  qed
qed

lemma mergeObject_absent:
  "k \<notin> fst ` set changes \<Longrightarrow> lookup (mergeObject target changes) k = lookup target k"
  by (induction target changes rule: mergeObject.induct) (auto simp: lookup_assign)

lemma mergeObject_present:
  assumes "distinct (map fst changes)" and "(k, v) \<in> set changes" and "\<not> isPojo v"
  shows "lookup (mergeObject target changes) k = v"
  using assms
proof (induction changes arbitrary: target)
  case Nil
  then show ?case by simp
next
  case (Cons kv changes)
  obtain k0 v0 where kv: "kv = (k0, v0)" by (cases kv)
  show ?case
  proof (cases "k0 = k")
    case True
    with Cons.prems kv have v0: "v0 = v" and absent: "k \<notin> fst ` set changes"
      by (auto simp: image_iff)
    have keep: "(case v of JObj cv \<Rightarrow> (case lookup target k of
                      JObj tv \<Rightarrow> JObj (mergeObject tv cv) | _ \<Rightarrow> JObj (mergeObject [] cv))
               | _ \<Rightarrow> v) = v"
      using Cons.prems(3) by (cases v) simp_all
    show ?thesis
      using True v0 kv keep by (simp add: mergeObject_absent [OF absent] lookup_assign)
  next
    case False
    with Cons.prems kv have "(k, v) \<in> set changes" and "distinct (map fst changes)" by auto
    then show ?thesis
      using Cons.IH Cons.prems(3) kv by simp
  qed
qed

lemma Task_effective_id:
  assumes "distinct (map fst os)" and "(''id'', v) \<in> set os" and "\<not> isPojo v"
  shows "lookup (opts (Task strand now (JObj os) defs)) ''id'' = v"
  using mergeObject_present [OF assms]
  by (simp add: Task_def Let_def)

subsection \<open>What \<open>task\<close> does to the task data\<close>

text \<open>
  C7 (as amended). For a task data object that passes the guard, \<open>task\<close> goes on with the
  prepared object, whose \<open>args\<close> is an array when the constructor is looked up and the
  \<open>run\<close> method is called with its elements: an array is kept as it is, any other truthy
  value \<open>v\<close> becomes \<open>[v]\<close>, and a value that is not truthy (\<open>undefined\<close>, \<open>null\<close>,
  \<open>false\<close>, \<open>0\<close>, the empty string) becomes the empty array.
\<close>

theorem task_args_sequence:
  assumes "get_prop d ''type'' = JStr ty" and "ty \<noteq> []"
  shows "task rn d = construct_and_run rn (prepare rn d)
       \<and> get_prop (prepare rn d) ''args'' =
           (if is_array (get_prop (apply_parser rn d) ''args'')
            then get_prop (apply_parser rn d) ''args''
            else if truthy (get_prop (apply_parser rn d) ''args'')
            then JArr [get_prop (apply_parser rn d) ''args'']
            else JArr [])
       \<and> is_array (get_prop (prepare rn d) ''args'')"
proof -
  from assms(1) have obj: "(\<exists>ps. d = JObj ps) \<or> (\<exists>ps. d = JInst ps)" by (rule typed_is_object)
  show ?thesis
    using task_valid [OF assms] prepare_args [OF obj, of rn] by simp
qed

theorem task_args_sequence_witness:
  "fst (task (snd (register (TaskRunner False True None) ''echo''
                     (Callable (task_class ''t1'' 0 [] echo_run)) False))
          (JObj [(''type'', JStr ''echo''), (''args'', JNum 5)]))
     = Inr (JArr [JNum 5])
   \<and> get_prop (prepare (snd (register (TaskRunner False True None) ''echo''
                     (Callable (task_class ''t1'' 0 [] echo_run)) False))
          (JObj [(''type'', JStr ''echo''), (''args'', JNum 5)])) ''args''
     = JArr [JNum 5]"
proof -
  let ?rn = "snd (register (TaskRunner False True None) ''echo''
                     (Callable (task_class ''t1'' 0 [] echo_run)) False)"
  let ?d = "JObj [(''type'', JStr ''echo''), (''args'', JNum 5)]"
  have h1: "get_prop ?d ''type'' = JStr ''echo''" by (simp add: get_prop_def)
  have h2: "''echo'' \<noteq> []" by simp
  note t = task_args_sequence [OF h1 h2, of ?rn]
  have p: "parser ?rn = None" by (simp add: register_def object_prototype_def TaskRunner_def)
  have a: "get_prop (apply_parser ?rn ?d) ''args'' = JNum 5"
    using p by (simp add: apply_parser_def get_prop_def)
  have c2: "get_prop (prepare ?rn ?d) ''args'' = JArr [JNum 5]"
    using t a by simp
  have ty: "get_prop (prepare ?rn ?d) ''type'' = JStr ''echo''"
    using p prepare_type [of ?d ?rn] by (simp add: apply_parser_def get_prop_def)
  have g: "getTaskConstructor ?rn ''echo'' = Some (task_class ''t1'' 0 [] echo_run)"
    by (simp add: getTaskConstructor_def object_prototype_def register_def object_prototype_def TaskRunner_def)
  have "task ?rn ?d = construct_and_run ?rn (prepare ?rn ?d)"
    using t by blast
  then have c1: "fst (task ?rn ?d) = Inr (JArr [JNum 5])"
    using c2 ty g by (simp add: construct_and_run_def construct_and_run_with_def task_class_def echo_run_def)
  show ?thesis using c1 c2 by (intro conjI)
qed

text \<open>
  The claim as stated says that every value that is not an array is wrapped. With
  \<open>args: 0\<close> the \<open>run\<close> method receives no argument at all, and \<open>args\<close> is left as the
  empty array, not as \<open>[0]\<close>.
\<close>

theorem task_args_falsy_counterexample:
  "fst (task (snd (register (TaskRunner False True None) ''echo''
                     (Callable (task_class ''t1'' 0 [] echo_run)) False))
          (JObj [(''type'', JStr ''echo''), (''args'', JNum 0)]))
     = Inr (JArr [])
   \<and> get_prop (fst (snd (task (snd (register (TaskRunner False True None) ''echo''
                     (Callable (task_class ''t1'' 0 [] echo_run)) False))
          (JObj [(''type'', JStr ''echo''), (''args'', JNum 0)])))) ''args''
     \<noteq> JArr [JNum 0]"
  by (simp add: task_def task_with_def get_prop_def prepare_def apply_parser_def ensure_options_def
      inject_id_def ensure_args_def construct_and_run_def construct_and_run_with_def getTaskConstructor_def object_prototype_def
      register_def object_prototype_def TaskRunner_def task_class_def echo_run_def)

text \<open>
  C9. For a task data object that passes the guard and whose \<open>id\<close> is set, that is, truthy
  for the test \<open>if ( taskData.id )\<close>: \<open>task\<close> goes on with the prepared object, whose
  \<open>options.id\<close> is that id whatever the options held before, and the constructor is called
  with these options. A class extending Task that hands them to the constructor of Task
  gets a task whose effective id is that id (for an id that is not itself a plain object,
  such as the string the data model asks for). The last hypothesis says that the options
  object has no property name twice, as every object does.
\<close>

theorem task_injects_id:
  assumes "get_prop d ''type'' = JStr ty" and "ty \<noteq> []"
    and "truthy (get_prop (apply_parser rn d) ''id'')"
    and "distinct (map fst (entries (get_prop (apply_parser rn d) ''options'')))"
  shows "task rn d = construct_and_run rn (prepare rn d)
       \<and> get_prop (get_prop (prepare rn d) ''options'') ''id'' = get_prop (apply_parser rn d) ''id''
       \<and> construct (task_class strand now defs run_impl) (get_prop (prepare rn d) ''options'')
           = Inr (TaskInstance (run_impl (Task strand now (get_prop (prepare rn d) ''options'') defs)))
       \<and> (\<not> isPojo (get_prop (apply_parser rn d) ''id'') \<longrightarrow>
            lookup (opts (Task strand now (get_prop (prepare rn d) ''options'') defs)) ''id''
              = get_prop (apply_parser rn d) ''id'')"
proof -
  let ?d1 = "apply_parser rn d"
  let ?idv = "get_prop ?d1 ''id''"
  let ?o = "if isPojo (get_prop ?d1 ''options'') then get_prop ?d1 ''options'' else JObj []"
  from assms(1) have obj: "(\<exists>ps. d = JObj ps) \<or> (\<exists>ps. d = JInst ps)" by (rule typed_is_object)
  obtain os where os: "?o = JObj os"
    by (cases "get_prop ?d1 ''options''") simp_all
  have dist: "distinct (map fst os)"
    using os assms(4) by (cases "get_prop ?d1 ''options''") (auto split: if_splits)
  have po: "get_prop (prepare rn d) ''options'' = JObj (assign os ''id'' ?idv)"
    using prepare_options [OF obj, of rn] assms(3) os by simp
  have c2: "get_prop (get_prop (prepare rn d) ''options'') ''id'' = ?idv"
    using po by (simp add: get_prop_def lookup_assign)
  have c3: "construct (task_class strand now defs run_impl) (get_prop (prepare rn d) ''options'')
      = Inr (TaskInstance (run_impl (Task strand now (get_prop (prepare rn d) ''options'') defs)))"
    by (simp add: task_class_def)
  have c4: "\<not> isPojo ?idv \<longrightarrow>
      lookup (opts (Task strand now (get_prop (prepare rn d) ''options'') defs)) ''id'' = ?idv"
    using po Task_effective_id [OF assign_distinct [OF dist] assign_member] by simp
  show ?thesis
    using task_valid [OF assms(1,2)] c2 c3 c4 by simp
qed

theorem task_injects_id_witness:
  "truthy (JStr ''x'')
   \<and> get_prop (get_prop (prepare
        (snd (register (TaskRunner True False None) ''noop''
                (Callable (task_class ''generated'' 7 [] (noop_run 9))) False))
        (JObj [(''type'', JStr ''noop''), (''id'', JStr ''x''),
               (''options'', JObj [(''id'', JStr ''a''), (''level'', JNum 2)])])) ''options'') ''id''
     = JStr ''x''
   \<and> fst (task
        (snd (register (TaskRunner True False None) ''noop''
                (Callable (task_class ''generated'' 7 [] (noop_run 9))) False))
        (JObj [(''type'', JStr ''noop''), (''id'', JStr ''x''),
               (''options'', JObj [(''id'', JStr ''a''), (''level'', JNum 2)])]))
     = Inr (JObj [(''id'', JStr ''x''), (''time'', JArr [JNum 0, JNum 2])])"
proof -
  let ?c = "task_class ''generated'' 7 [] (noop_run 9)"
  let ?rn = "snd (register (TaskRunner True False None) ''noop'' (Callable ?c) False)"
  let ?d = "JObj [(''type'', JStr ''noop''), (''id'', JStr ''x''),
               (''options'', JObj [(''id'', JStr ''a''), (''level'', JNum 2)])]"
  have p: "parser ?rn = None" by (simp add: register_def object_prototype_def TaskRunner_def)
  have ap: "apply_parser ?rn ?d = ?d" using p by (simp add: apply_parser_def)
  have h1: "get_prop ?d ''type'' = JStr ''noop''" by (simp add: get_prop_def)
  have h2: "''noop'' \<noteq> []" by simp
  have h3: "truthy (get_prop (apply_parser ?rn ?d) ''id'')"
    unfolding ap by (simp add: get_prop_def)
  have h4: "distinct (map fst (entries (get_prop (apply_parser ?rn ?d) ''options'')))"
    unfolding ap by (simp add: get_prop_def)
  note t = task_injects_id [OF h1 h2 h3 h4, of "''generated''" 7 "[]" "noop_run 9"]
  have idv: "get_prop (apply_parser ?rn ?d) ''id'' = JStr ''x''"
    unfolding ap by (simp add: get_prop_def)
  have c2: "get_prop (get_prop (prepare ?rn ?d) ''options'') ''id'' = JStr ''x''"
    using t idv by simp
  let ?tk = "Task ''generated'' 7 (get_prop (prepare ?rn ?d) ''options'') []"
  have eid: "lookup (opts ?tk) ''id'' = JStr ''x''"
    using t idv by simp
  have ctor: "construct ?c (get_prop (prepare ?rn ?d) ''options'') = Inr (TaskInstance (noop_run 9 ?tk))"
    using t by blast
  have tm: "timer ?tk = Timer 7" by (simp add: Task_def Let_def)
  have ty: "get_prop (prepare ?rn ?d) ''type'' = JStr ''noop''"
    using prepare_type [of ?d ?rn] ap h1 by simp
  have g: "getTaskConstructor ?rn ''noop'' = Some ?c"
    by (simp add: getTaskConstructor_def object_prototype_def register_def object_prototype_def TaskRunner_def)
  have "task ?rn ?d = construct_and_run ?rn (prepare ?rn ?d)"
    using t by blast
  then have c3: "fst (task ?rn ?d) = Inr (JObj [(''id'', JStr ''x''), (''time'', JArr [JNum 0, JNum 2])])"
    using ty g ctor eid tm
    by (simp add: construct_and_run_def construct_and_run_with_def noop_run_def stats_def timer_end_def)
  show ?thesis using c2 c3 by simp
qed

text \<open>
  The task data that passes the guard of \<open>task\<close>, and the task data that fails it.
\<close>

lemma task_failing_guard:
  assumes "typeof (get_prop d ''type'') \<noteq> ''string'' \<or> get_prop d ''type'' = JStr []"
  shows "fst (snd (task rn d)) = d"
proof -
  have "typeof (get_prop d ''type'') \<noteq> ''string'' \<or> str_length (get_prop d ''type'') = 0"
    using assms by auto
  then show ?thesis
    by (auto simp add: task_def task_with_def error_then_return_data)
qed

lemma task_passing_guard:
  assumes "get_prop d ''type'' = JStr ty" and "ty \<noteq> []"
  shows "fst (snd (task rn d)) = prepare rn d
       \<and> isPojo (get_prop (prepare rn d) ''options'')
       \<and> (\<not> isPojo (get_prop (apply_parser rn d) ''options'') \<longrightarrow>
            get_prop (prepare rn d) ''options''
              = (if truthy (get_prop (apply_parser rn d) ''id'')
                 then JObj [(''id'', get_prop (apply_parser rn d) ''id'')] else JObj []))
       \<and> (truthy (get_prop (apply_parser rn d) ''id'') \<longrightarrow>
            get_prop (get_prop (prepare rn d) ''options'') ''id'' = get_prop (apply_parser rn d) ''id'')
       \<and> get_prop (prepare rn d) ''args''
           = (if is_array (get_prop (apply_parser rn d) ''args'')
              then get_prop (apply_parser rn d) ''args''
              else if truthy (get_prop (apply_parser rn d) ''args'')
              then JArr [get_prop (apply_parser rn d) ''args'']
              else JArr [])
       \<and> (\<forall>k. k \<noteq> ''options'' \<and> k \<noteq> ''args'' \<longrightarrow>
            get_prop (prepare rn d) k = get_prop (apply_parser rn d) k)"
proof -
  let ?d1 = "apply_parser rn d"
  from assms(1) have obj: "(\<exists>ps. d = JObj ps) \<or> (\<exists>ps. d = JInst ps)" by (rule typed_is_object)
  have c1: "fst (snd (task rn d)) = prepare rn d"
    using task_valid [OF assms] by (simp add: construct_and_run_data)
  note po = prepare_options [OF obj, of rn]
  have c2: "isPojo (get_prop (prepare rn d) ''options'')"
    unfolding po by (cases "get_prop ?d1 ''options''") simp_all
  have c3: "\<not> isPojo (get_prop ?d1 ''options'') \<longrightarrow>
      get_prop (prepare rn d) ''options''
        = (if truthy (get_prop ?d1 ''id'') then JObj [(''id'', get_prop ?d1 ''id'')] else JObj [])"
    unfolding po by simp
  have c4: "truthy (get_prop ?d1 ''id'') \<longrightarrow>
      get_prop (get_prop (prepare rn d) ''options'') ''id'' = get_prop ?d1 ''id''"
    unfolding po
    by (cases "get_prop ?d1 ''options''") (simp_all add: get_prop_def lookup_assign)
  note c5 = prepare_args [OF obj, of rn]
  have c6: "\<forall>k. k \<noteq> ''options'' \<and> k \<noteq> ''args'' \<longrightarrow> get_prop (prepare rn d) k = get_prop ?d1 k"
    using prepare_other [OF obj] by blast
  show ?thesis
    using c1 c2 c3 c4 c5 c6 by (intro conjI)
qed

text \<open>
  C10 (as amended). For a task data object that passes the guard of \<open>task\<close> (an object
  with a non-empty string \<open>type\<close>), the object the caller handed in is, when \<open>task\<close> is
  done (whatever the outcome: a result, \<open>null\<close> or a thrown fault), the prepared object:
  its \<open>options\<close> is a plain object, the empty one if it was missing or not a plain object
  before, with \<open>id\<close> overwritten by the object's own \<open>id\<close> if that is set (truthy);
  its \<open>args\<close> is the array described under C7; every other property is as the parser
  left it. For every task data that fails the guard (its \<open>type\<close> is no string or the empty
  string), the object is, when \<open>task\<close> is done, as it was handed in.
\<close>

theorem task_mutates_task_data:
  "(get_prop d ''type'' = JStr ty \<and> ty \<noteq> [] \<longrightarrow>
      fst (snd (task rn d)) = prepare rn d
      \<and> isPojo (get_prop (prepare rn d) ''options'')
      \<and> (\<not> isPojo (get_prop (apply_parser rn d) ''options'') \<longrightarrow>
           get_prop (prepare rn d) ''options''
             = (if truthy (get_prop (apply_parser rn d) ''id'')
                then JObj [(''id'', get_prop (apply_parser rn d) ''id'')] else JObj []))
      \<and> (truthy (get_prop (apply_parser rn d) ''id'') \<longrightarrow>
           get_prop (get_prop (prepare rn d) ''options'') ''id'' = get_prop (apply_parser rn d) ''id'')
      \<and> get_prop (prepare rn d) ''args''
          = (if is_array (get_prop (apply_parser rn d) ''args'')
             then get_prop (apply_parser rn d) ''args''
             else if truthy (get_prop (apply_parser rn d) ''args'')
             then JArr [get_prop (apply_parser rn d) ''args'']
             else JArr [])
      \<and> (\<forall>k. k \<noteq> ''options'' \<and> k \<noteq> ''args'' \<longrightarrow>
           get_prop (prepare rn d) k = get_prop (apply_parser rn d) k))
   \<and> (typeof (get_prop d ''type'') \<noteq> ''string'' \<or> get_prop d ''type'' = JStr [] \<longrightarrow>
        fst (snd (task rn d)) = d)"
  using task_passing_guard [of d ty rn] task_failing_guard [of d rn] by blast

theorem task_mutates_task_data_witness:
  "fst (task (TaskRunner False False None)
          (JObj [(''type'', JStr ''noop''), (''id'', JStr ''x''), (''args'', JNum 5)]))
     = Inr JNull
   \<and> fst (snd (task (TaskRunner False False None)
          (JObj [(''type'', JStr ''noop''), (''id'', JStr ''x''), (''args'', JNum 5)])))
     = JObj [(''type'', JStr ''noop''), (''id'', JStr ''x''), (''args'', JArr [JNum 5]),
             (''options'', JObj [(''id'', JStr ''x'')])]
   \<and> fst (snd (task (TaskRunner True False None) (JObj [(''type'', JNum 7), (''args'', JNum 5)])))
     = JObj [(''type'', JNum 7), (''args'', JNum 5)]"
proof -
  let ?rn = "TaskRunner False False None"
  let ?d = "JObj [(''type'', JStr ''noop''), (''id'', JStr ''x''), (''args'', JNum 5)]"
  let ?d' = "JObj [(''type'', JNum 7), (''args'', JNum 5)]"
  have h1: "get_prop ?d ''type'' = JStr ''noop''" by (simp add: get_prop_def)
  have h2: "''noop'' \<noteq> []" by simp
  note t = task_mutates_task_data [of ?d "''noop''" ?rn]
  have pd: "prepare ?rn ?d
      = JObj [(''type'', JStr ''noop''), (''id'', JStr ''x''), (''args'', JArr [JNum 5]),
              (''options'', JObj [(''id'', JStr ''x'')])]"
    by (simp add: prepare_def apply_parser_def TaskRunner_def ensure_options_def inject_id_def
        ensure_args_def get_prop_def)
  have "fst (snd (task ?rn ?d)) = prepare ?rn ?d"
    using t h1 h2 by blast
  then have c2: "fst (snd (task ?rn ?d)) = JObj [(''type'', JStr ''noop''), (''id'', JStr ''x''),
      (''args'', JArr [JNum 5]), (''options'', JObj [(''id'', JStr ''x'')])]"
    using pd by simp
  have c1: "fst (task ?rn ?d) = Inr JNull"
    using task_valid [OF h1 h2, of ?rn] pd
    by (simp add: construct_and_run_def construct_and_run_with_def getTaskConstructor_def
        object_prototype_def TaskRunner_def get_prop_def error_then_return_def error_def)
  have h3: "typeof (get_prop ?d' ''type'') \<noteq> ''string''" by (simp add: get_prop_def)
  have c3: "fst (snd (task (TaskRunner True False None) ?d')) = ?d'"
    using task_mutates_task_data [of ?d' "[]" "TaskRunner True False None"] h3 by blast
  show ?thesis using c1 c2 c3 by (intro conjI)
qed

text \<open>
  The claim as stated speaks of every call that resolves. A task data object that fails
  the guard is left as it was: on a dispatcher that is not strict, \<open>task\<close> resolves with
  \<open>null\<close>, and the object still has no \<open>options\<close> and its \<open>args\<close> is still no array.
\<close>

theorem task_mutates_task_data_counterexample:
  "task (TaskRunner False False None) (JObj [(''type'', JStr []), (''args'', JNum 5)])
     = (Inr JNull, JObj [(''type'', JStr []), (''args'', JNum 5)], TaskRunner False False None)
   \<and> \<not> isPojo (get_prop (fst (snd (task (TaskRunner False False None)
          (JObj [(''type'', JStr []), (''args'', JNum 5)])))) ''options'')
   \<and> \<not> is_array (get_prop (fst (snd (task (TaskRunner False False None)
          (JObj [(''type'', JStr []), (''args'', JNum 5)])))) ''args'')"
  by (simp add: task_def task_with_def get_prop_def error_then_return_def error_def TaskRunner_def)

subsection \<open>The stats of a task\<close>

text \<open>
  C8. For every task and every partial result mapping, \<open>stats\<close> returns a mapping whose
  \<open>id\<close> is the id of the task's effective options and whose \<open>time\<close> is what the timer
  started at the construction measures at the call, the elapsed seconds and nanoseconds;
  two calls on the same task return the same \<open>id\<close>; the other entries of the mapping are
  kept.
\<close>

theorem stats_id_and_time:
  "lookup (stats tk now (Some partial)) ''id'' = lookup (opts tk) ''id''
   \<and> lookup (stats tk now (Some partial)) ''time'' = timer_end (timer tk) now
   \<and> lookup (stats (Task strand t0 options defs) now (Some partial)) ''time''
       = JArr [JNum (int ((now - t0) div 1000000000)), JNum (int ((now - t0) mod 1000000000))]
   \<and> lookup (stats tk now1 (Some [])) ''id'' = lookup (stats tk now2 (Some [])) ''id''
   \<and> fst ` set (stats tk now (Some partial)) = {''id'', ''time''} \<union> fst ` set partial"
  by (auto simp add: stats_def lookup_assign timer_end_def Task_def Let_def assign_keys)

theorem stats_id_and_time_witness:
  "stats (Task ''generated'' 7 (JObj [(''id'', JStr ''x'')]) []) 3000000010 (Some [(''ok'', JBool True)])
     = [(''ok'', JBool True), (''id'', JStr ''x''), (''time'', JArr [JNum 3, JNum 3])]
   \<and> lookup (stats (Task ''generated'' 7 (JObj [(''id'', JStr ''x'')]) []) 3000000010
         (Some [(''ok'', JBool True)])) ''id'' = JStr ''x''
   \<and> lookup (stats (Task ''generated'' 7 JNull []) 8 (Some [])) ''id'' = JStr ''generated''
   \<and> lookup (stats (Task ''generated'' 7 JNull []) 9 (Some [])) ''id'' = JStr ''generated''"
proof -
  let ?tk = "Task ''generated'' 7 (JObj [(''id'', JStr ''x'')]) []"
  let ?tk' = "Task ''generated'' 7 JNull []"
  note t = stats_id_and_time [of ?tk 3000000010 "[(''ok'', JBool True)]"]
  note t' = stats_id_and_time [where tk = ?tk' and now = 8 and partial = "[]"
      and ?now1.0 = 8 and ?now2.0 = 9]
  have o: "lookup (opts ?tk) ''id'' = JStr ''x''" by (simp add: Task_def Let_def cloneObject_def)
  have o': "lookup (opts ?tk') ''id'' = JStr ''generated''" by (simp add: Task_def Let_def cloneObject_def)
  have c1: "stats ?tk 3000000010 (Some [(''ok'', JBool True)])
     = [(''ok'', JBool True), (''id'', JStr ''x''), (''time'', JArr [JNum 3, JNum 3])]"
    by (simp add: stats_def Task_def Let_def cloneObject_def timer_end_def)
  have c2: "lookup (stats ?tk 3000000010 (Some [(''ok'', JBool True)])) ''id'' = JStr ''x''"
    using t o by simp
  have "lookup (stats ?tk' 8 (Some [])) ''id'' = lookup (opts ?tk') ''id''"
    using t' by blast
  with o' have c3: "lookup (stats ?tk' 8 (Some [])) ''id'' = JStr ''generated''"
    by simp
  have "lookup (stats ?tk' 8 (Some [])) ''id'' = lookup (stats ?tk' 9 (Some [])) ''id''"
    using t' by blast
  with c3 have c4: "lookup (stats ?tk' 9 (Some [])) ''id'' = JStr ''generated''"
    by simp
  show ?thesis using c1 c2 c3 c4 by (intro conjI)
qed

subsection \<open>The router, \<open>sequence\<close> and \<open>parallel\<close>\<close>

text \<open>
  Every call of \<open>run\<close> is rejected. With a \<open>run\<close> method that resolves, \<open>sequence_with\<close>
  returns the results in the order of the elements, and \<open>parallel_with\<close> returns, under the
  names of the entries, the promises of the calls and not their results.
\<close>

lemma sequence_loop_pure:
  "sequence_loop (\<lambda>rn v. (Inr (f v), v, rn)) rn xs acc = (Inr (JArr (acc @ map f xs)), xs, rn)"
  by (induction xs arbitrary: acc) simp_all

lemma sequence_with_pure:
  "sequence_with (\<lambda>rn v. (Inr (f v), v, rn)) rn (JArr xs) = (Inr (JArr (map f xs)), JArr xs, rn)"
  by (simp add: sequence_with_def sequence_loop_pure)

lemma sequence_not_array:
  assumes "\<not> is_array v"
  shows "sequence rn v =
           error_then_return rn
             (TaskRunnerException (''Invalid sequence type: '' @ typeof v) None) (JArr []) v"
  using assms by (simp add: sequence_def sequence_with_def)

lemma sequence_not_array_lenient:
  assumes "\<not> is_array v" and "\<not> strict rn"
  shows "fst (sequence rn v) = Inr (JArr [])"
  using assms by (simp add: sequence_not_array error_then_return_def error_def)

lemma assign_fresh: "k \<notin> fst ` set ps \<Longrightarrow> assign ps k v = ps @ [(k, v)]"
  by (induction ps) auto

lemma first_rejected_append:
  "first_rejected (ts @ us) = (case first_rejected ts of Some e \<Rightarrow> Some e | None \<Rightarrow> first_rejected us)"
  by (induction ts rule: first_rejected.induct) simp_all

lemma first_rejected_resolved: "first_rejected (map (\<lambda>x. JResolved (g x)) xs) = None"
  by (induction xs) simp_all

lemma parallel_loop_pure:
  assumes "distinct (map fst es)" and "fst ` set es \<inter> fst ` set sts = {}"
  shows "parallel_loop (\<lambda>rn v. (Inr (f v), v, rn)) rn es sts tasks
           = ((sts @ map (\<lambda>(k, v). (k, JResolved (f v))) es,
               tasks @ map (\<lambda>(k, v). JResolved (f v)) es), es, rn)"
  using assms
proof (induction es arbitrary: sts tasks)
  case Nil
  show ?case by simp
next
  case (Cons e es)
  obtain k v where e: "e = (k, v)" by (cases e)
  from Cons.prems e have fresh: "k \<notin> fst ` set sts" by auto
  have a: "assign sts k (JResolved (f v)) = sts @ [(k, JResolved (f v))]"
    using fresh by (rule assign_fresh)
  have d: "distinct (map fst es)" using Cons.prems by simp
  have i: "fst ` set es \<inter> fst ` set (sts @ [(k, JResolved (f v))]) = {}"
    using Cons.prems e by auto
  show ?case
    using Cons.IH [OF d i] e a by (simp add: lookup_assign)
qed

lemma parallel_with_stores_promises:
  assumes "distinct (map fst ps)" and "typeof (get_prop (JObj ps) ''type'') \<noteq> ''string''"
  shows "parallel_with (\<lambda>rn v. (Inr (f v), v, rn)) rn (JObj ps)
           = (Inr (JObj (map (\<lambda>(k, v). (k, JResolved (f v))) ps)), JObj ps, rn)"
proof -
  have fr: "first_rejected (map (\<lambda>(k, v). JResolved (f v)) ps) = None"
    using first_rejected_resolved [of "\<lambda>p. f (snd p)" ps] by (simp add: case_prod_unfold)
  show ?thesis
    using assms(2) parallel_loop_pure [OF assms(1), of "[]" f rn "[]"] fr
    by (simp add: parallel_with_def promise_all_def)
qed

lemma parallel_loop_run:
  "snd (fst (parallel_loop run rn es sts tasks))
     = tasks @ replicate (length es) (JRejected (ReferenceError ''taskMap is not defined''))
   \<and> snd (parallel_loop run rn es sts tasks) = (es, rn)"
proof (induction es arbitrary: sts tasks)
  case Nil
  show ?case by simp
next
  case (Cons e es)
  obtain k v where e: "e = (k, v)" by (cases e)
  let ?p = "JRejected (ReferenceError ''taskMap is not defined'')"
  obtain st ts es' rn' where
    l: "parallel_loop run rn es (assign sts k ?p) (tasks @ [?p]) = ((st, ts), es', rn')"
    by (metis prod.exhaust)
  from Cons.IH [of "assign sts k ?p" "tasks @ [?p]"] l
  have r: "ts = tasks @ ?p # replicate (length es) ?p" "es' = es" "rn' = rn"
    by simp_all
  have "parallel_loop run rn (e # es) sts tasks = ((st, ts), e # es', rn')"
    using e l by (simp add: run_rejects lookup_assign)
  then show ?case
    using r by simp
qed

text \<open>
  C1. What the router does: in the revision that sends arrays to \<open>sequence\<close>, \<open>run\<close> throws
  a ReferenceError for every input, whatever its shape, before it looks at the input, and
  nothing is handed to \<open>error\<close>; in the other revision, \<open>run\<close> hands an array to
  \<open>parallel\<close>, whatever its \<open>task\<close> method does.
\<close>

theorem run_reference_error:
  "run rn taskInput = (Inl (ReferenceError ''taskMap is not defined''), taskInput, rn)
   \<and> run0 task' rn (JArr xs)
       = (case parallel0 task' rn xs of (r, xs', rn') \<Rightarrow> (r, JArr xs', rn'))"
  by (simp add: run.simps run_scope_def)

theorem run_reference_error_witness:
  "fst (run (TaskRunner False True None) (JArr [])) = Inl (ReferenceError ''taskMap is not defined'')
   \<and> fst (sequence (TaskRunner False True None) (JArr [])) = Inr (JArr [])
   \<and> fst (run (TaskRunner False True None) (JObj [(''type'', JStr ''noop'')]))
       = Inl (ReferenceError ''taskMap is not defined'')
   \<and> fst (run (TaskRunner False True None) (JNum 1)) = Inl (ReferenceError ''taskMap is not defined'')
   \<and> notified (snd (snd (run (TaskRunner False True None) (JNum 1)))) = []
   \<and> fst (run0 (\<lambda>rn v. (Inr JNull, v, rn)) (TaskRunner False True None) (JArr [JNum 1, JNum 2]))
       = Inr (JArr [JNull, JNull])"
proof -
  let ?rn = "TaskRunner False True None"
  note t = run_reference_error [of ?rn _ "\<lambda>rn v. (Inr JNull, v, rn)" "[JNum 1, JNum 2]"]
  have c1: "fst (run ?rn (JArr [])) = Inl (ReferenceError ''taskMap is not defined'')"
    using t [of "JArr []"] by simp
  have c2: "fst (sequence ?rn (JArr [])) = Inr (JArr [])"
    by (simp add: sequence_def sequence_with_def)
  have c3: "fst (run ?rn (JObj [(''type'', JStr ''noop'')])) = Inl (ReferenceError ''taskMap is not defined'')"
    using t [of "JObj [(''type'', JStr ''noop'')]"] by simp
  have c4: "fst (run ?rn (JNum 1)) = Inl (ReferenceError ''taskMap is not defined'')"
    using t [of "JNum 1"] by simp
  have c5: "notified (snd (snd (run ?rn (JNum 1)))) = []"
    using t [of "JNum 1"] by (simp add: TaskRunner_def)
  have c6: "fst (run0 (\<lambda>rn v. (Inr JNull, v, rn)) ?rn (JArr [JNum 1, JNum 2])) = Inr (JArr [JNull, JNull])"
    by (simp add: error_then_return_def error_def TaskRunner_def promise_all_def)
  show ?thesis using c1 c2 c3 c4 c5 c6 by (intro conjI)
qed

text \<open>
  C2. What \<open>parallel\<close> does with a plain object without a string \<open>type\<close> that has an entry:
  every call of \<open>run\<close> it starts is rejected, so \<open>parallel\<close> is rejected with the
  ReferenceError and returns no mapping.
\<close>

theorem parallel_rejects_nonempty:
  assumes "ps \<noteq> []" and "typeof (get_prop (JObj ps) ''type'') \<noteq> ''string''"
  shows "parallel rn (JObj ps) = (Inl (ReferenceError ''taskMap is not defined''), JObj ps, rn)"
proof -
  let ?p = "JRejected (ReferenceError ''taskMap is not defined'')"
  obtain st ts es' rn' where l: "parallel_loop run rn ps [] [] = ((st, ts), es', rn')"
    by (metis prod.exhaust)
  from parallel_loop_run [of rn ps "[]" "[]"] l
  have ts: "ts = replicate (length ps) ?p" and r: "es' = ps" "rn' = rn" by simp_all
  obtain n where n: "length ps = Suc n" using assms(1) by (cases ps) auto
  have "first_rejected ts = Some (ReferenceError ''taskMap is not defined'')"
    using ts n by simp
  then show ?thesis
    using assms(2) l r by (simp add: parallel_def parallel_with_def promise_all_def)
qed

theorem parallel_rejects_nonempty_witness:
  "parallel (TaskRunner False True None) (JObj [(''a'', JObj [(''type'', JStr ''noop'')])])
     = (Inl (ReferenceError ''taskMap is not defined''),
        JObj [(''a'', JObj [(''type'', JStr ''noop'')])], TaskRunner False True None)
   \<and> fst (parallel_with (\<lambda>rn v. (Inr JNull, v, rn)) (TaskRunner False True None)
        (JObj [(''a'', JObj [(''type'', JStr ''noop'')])]))
     = Inr (JObj [(''a'', JResolved JNull)])"
proof -
  let ?ps = "[(''a'', JObj [(''type'', JStr ''noop'')])]"
  have h1: "?ps \<noteq> []" by simp
  have h2: "typeof (get_prop (JObj ?ps) ''type'') \<noteq> ''string''" by (simp add: get_prop_def)
  note t = parallel_rejects_nonempty [OF h1 h2, of "TaskRunner False True None"]
  have c2: "fst (parallel_with (\<lambda>rn v. (Inr JNull, v, rn)) (TaskRunner False True None) (JObj ?ps))
     = Inr (JObj [(''a'', JResolved JNull)])"
    by (simp add: parallel_with_def get_prop_def promise_all_def)
  show ?thesis using t c2 by (intro conjI)
qed

text \<open>
  C3. What \<open>sequence\<close> does with an array that has an element: the first call of \<open>run\<close> is
  rejected, so \<open>sequence\<close> is rejected with the ReferenceError and returns no results.
\<close>

theorem sequence_rejects_nonempty:
  assumes "xs \<noteq> []"
  shows "sequence rn (JArr xs) = (Inl (ReferenceError ''taskMap is not defined''), JArr xs, rn)"
proof -
  obtain y ys where xs: "xs = y # ys" using assms by (cases xs) auto
  show ?thesis
    unfolding xs by (simp add: sequence_def sequence_with_def run_rejects)
qed

theorem sequence_rejects_nonempty_witness:
  "sequence (TaskRunner False True None) (JArr [JObj [(''type'', JStr ''noop'')]])
     = (Inl (ReferenceError ''taskMap is not defined''),
        JArr [JObj [(''type'', JStr ''noop'')]], TaskRunner False True None)
   \<and> fst (sequence (TaskRunner False True None) (JNum 3)) = Inr (JArr [])
   \<and> notified (snd (snd (sequence (TaskRunner False True None) (JNum 3))))
       = [TaskRunnerException ''Invalid sequence type: number'' None]"
proof -
  have h: "[JObj [(''type'', JStr ''noop'')]] \<noteq> []" by simp
  note t = sequence_rejects_nonempty [OF h, of "TaskRunner False True None"]
  have c2: "fst (sequence (TaskRunner False True None) (JNum 3)) = Inr (JArr [])"
    by (simp add: sequence_not_array_lenient TaskRunner_def)
  have c3: "notified (snd (snd (sequence (TaskRunner False True None) (JNum 3))))
       = [TaskRunnerException ''Invalid sequence type: number'' None]"
    by (simp add: sequence_not_array error_then_return_def error_def TaskRunner_def)
  show ?thesis using t c2 c3 by (intro conjI)
qed

end
